theory Spec2Isabelle
  imports Complex_Main "HOL-Library.Log_Nat"
begin

section \<open>Python values used by tesseract\_node3.py\<close>

text \<open>
  The exceptions that the modelled code can raise. None of them is caught anywhere in
  the source, so a raise ends the function (and the request) that is running.
\<close>

datatype error = ValueError | TypeError | OverflowError | IndexError | CircuitError

definition and_then :: "error + 'a \<Rightarrow> ('a \<Rightarrow> error + 'b) \<Rightarrow> error + 'b" where
  "and_then r f = (case r of Inl e \<Rightarrow> Inl e | Inr v \<Rightarrow> f v)"

fun run_steps :: "('a \<Rightarrow> error + 'a) list \<Rightarrow> 'a \<Rightarrow> error + 'a" where
  "run_steps [] v = Inr v"
| "run_steps (f # fs) v = and_then (f v) (run_steps fs)"

subsection \<open>Floats\<close>

text \<open>
  A Python float is an IEEE-754 binary64 number. A finite one is modelled by its exact
  rational value, so that equality of the model is equality of values. The sign of a zero
  is not modelled (Python's \<^verbatim>\<open>==\<close> identifies \<^verbatim>\<open>-0.0\<close> and \<^verbatim>\<open>0.0\<close>, and the program
  never divides), and there is one NaN.

  \<open>ilog2 q\<close> is the floor of the binary logarithm of a positive rational, \<open>ulp_exp q\<close>
  the exponent of the spacing of the doubles around \<open>q\<close> (53 significant bits,
  subnormals below \<open>2^-1022\<close>), and \<open>round_double\<close> rounds to the nearest double, ties to
  the even significand, overflowing to an infinity from \<open>2^1024\<close> on.
\<close>

datatype double = Finite rat | PInf | NInf | NaN

definition ilog2 :: "rat \<Rightarrow> int" where
  "ilog2 q = (if 1 \<le> q then bitlen \<lfloor>q\<rfloor> - 1 else - bitlen (\<lceil>1 / q\<rceil> - 1))"

definition pow2 :: "int \<Rightarrow> rat" where
  "pow2 e = (if 0 \<le> e then 2 ^ nat e else 1 / 2 ^ nat (- e))"

definition ulp_exp :: "rat \<Rightarrow> int" where
  "ulp_exp q = max (ilog2 \<bar>q\<bar> - 52) (- 1074)"

definition round_half_even :: "rat \<Rightarrow> int" where
  "round_half_even q =
     (let f = \<lfloor>q\<rfloor>; r = q - of_int f
      in if r < 1 / 2 then f else if 1 / 2 < r then f + 1 else if even f then f else f + 1)"

definition round_double :: "rat \<Rightarrow> double" where
  "round_double q =
     (if q = 0 then Finite 0
      else let e = ulp_exp q; r = of_int (round_half_even (q / pow2 e)) * pow2 e
           in if 2 ^ 1024 \<le> \<bar>r\<bar> then (if 0 < q then PInf else NInf) else Finite r)"

text \<open>
  Float addition and multiplication: the exact result, rounded once. A sum with a zero
  operand is the other operand.
\<close>

fun fadd :: "double \<Rightarrow> double \<Rightarrow> double" where
  "fadd NaN _ = NaN"
| "fadd _ NaN = NaN"
| "fadd PInf NInf = NaN"
| "fadd NInf PInf = NaN"
| "fadd PInf _ = PInf"
| "fadd _ PInf = PInf"
| "fadd NInf _ = NInf"
| "fadd _ NInf = NInf"
| "fadd (Finite a) (Finite b) =
     (if b = 0 then Finite a else if a = 0 then Finite b else round_double (a + b))"

fun fmul :: "double \<Rightarrow> double \<Rightarrow> double" where
  "fmul NaN _ = NaN"
| "fmul _ NaN = NaN"
| "fmul (Finite a) (Finite b) = round_double (a * b)"
| "fmul (Finite a) PInf = (if a = 0 then NaN else if 0 < a then PInf else NInf)"
| "fmul (Finite a) NInf = (if a = 0 then NaN else if 0 < a then NInf else PInf)"
| "fmul PInf (Finite b) = (if b = 0 then NaN else if 0 < b then PInf else NInf)"
| "fmul NInf (Finite b) = (if b = 0 then NaN else if 0 < b then NInf else PInf)"
| "fmul PInf PInf = PInf"
| "fmul PInf NInf = NInf"
| "fmul NInf PInf = NInf"
| "fmul NInf NInf = PInf"

subsection \<open>Numbers: int and float\<close>

text \<open>
  The position fields start as the int \<^verbatim>\<open>0\<close> and become floats once a float is added.
  Python's \<^verbatim>\<open>+\<close> and \<^verbatim>\<open>*\<close> are exact on two ints; with a float operand the int is converted
  to float first, which raises OverflowError when the int is beyond the double range.
\<close>

datatype pynum = PyInt int | PyFloat double

definition float_of_int :: "int \<Rightarrow> error + double" where
  "float_of_int i =
     (case round_double (of_int i) of Finite r \<Rightarrow> Inr (Finite r) | _ \<Rightarrow> Inl OverflowError)"

fun py_add :: "pynum \<Rightarrow> pynum \<Rightarrow> error + pynum" where
  "py_add (PyInt a) (PyInt b) = Inr (PyInt (a + b))"
| "py_add (PyInt a) (PyFloat g) = and_then (float_of_int a) (\<lambda>f. Inr (PyFloat (fadd f g)))"
| "py_add (PyFloat f) (PyInt b) = and_then (float_of_int b) (\<lambda>g. Inr (PyFloat (fadd f g)))"
| "py_add (PyFloat f) (PyFloat g) = Inr (PyFloat (fadd f g))"

fun py_mul :: "pynum \<Rightarrow> pynum \<Rightarrow> error + pynum" where
  "py_mul (PyInt a) (PyInt b) = Inr (PyInt (a * b))"
| "py_mul (PyInt a) (PyFloat g) = and_then (float_of_int a) (\<lambda>f. Inr (PyFloat (fmul f g)))"
| "py_mul (PyFloat f) (PyInt b) = and_then (float_of_int b) (\<lambda>g. Inr (PyFloat (fmul f g)))"
| "py_mul (PyFloat f) (PyFloat g) = Inr (PyFloat (fmul f g))"

section \<open>Spacetime4D\<close>

text \<open>
  \<^verbatim>\<open>self.c\<close> is assigned once, in \<^verbatim>\<open>__init__\<close>, and never again: a constant. The four
  mutable fields are the record. \<open>move\<close> returns what the method returns or raises,
  together with the object as the call leaves it: a raise in the middle keeps the
  assignments made before it.
\<close>

definition self_c :: int where
  "self_c = 299792458"

record Spacetime4D =
  self_t :: pynum
  self_x :: pynum
  self_y :: pynum
  self_z :: pynum

type_synonym coord = "pynum \<times> pynum \<times> pynum \<times> pynum"

definition Spacetime4D_init :: Spacetime4D where
  "Spacetime4D_init = \<lparr>self_t = PyInt 0, self_x = PyInt 0, self_y = PyInt 0, self_z = PyInt 0\<rparr>"

definition move :: "pynum \<Rightarrow> pynum \<Rightarrow> pynum \<Rightarrow> pynum \<Rightarrow> Spacetime4D \<Rightarrow> (error + coord) \<times> Spacetime4D" where
  "move dt dx dy dz s0 =
     (case py_add (self_t s0) dt of Inl e \<Rightarrow> (Inl e, s0) | Inr t' \<Rightarrow>
       (let s1 = s0\<lparr>self_t := t'\<rparr> in
        case py_add (self_x s1) dx of Inl e \<Rightarrow> (Inl e, s1) | Inr x' \<Rightarrow>
         (let s2 = s1\<lparr>self_x := x'\<rparr> in
          case py_add (self_y s2) dy of Inl e \<Rightarrow> (Inl e, s2) | Inr y' \<Rightarrow>
           (let s3 = s2\<lparr>self_y := y'\<rparr> in
            case py_add (self_z s3) dz of Inl e \<Rightarrow> (Inl e, s3) | Inr z' \<Rightarrow>
             (let s4 = s3\<lparr>self_z := z'\<rparr> in
              case py_mul (PyInt self_c) (self_t s4) of Inl e \<Rightarrow> (Inl e, s4) | Inr ct \<Rightarrow>
                (Inr (ct, self_x s4, self_y s4, self_z s4), s4))))))"

section \<open>QuantumCore\<close>

subsection \<open>The circuit library, as far as QuantumCore uses it\<close>

text \<open>
  A circuit has a number of qubits, its classical registers in the order they were added
  (name and size; the classical bits are numbered through the registers in that order)
  and its instructions. \<^verbatim>\<open>QuantumCircuit(n, m)\<close> makes \<open>n\<close> qubits and one register
  \<^verbatim>\<open>c\<close> of \<open>m\<close> classical bits. Appending an instruction checks its arguments and raises
  CircuitError on an index out of range or a repeated qubit.
\<close>

datatype instr =
    HGate nat
  | XGate nat
  | IGate nat
  | CXGate nat nat
  | CZGate nat nat
  | MCXGate "nat list" nat
  | Barrier
  | Measure nat nat

record QuantumCircuit =
  num_qubits :: nat
  cregs :: "(string \<times> nat) list"
  instructions :: "instr list"

definition QuantumCircuit_new :: "nat \<Rightarrow> nat \<Rightarrow> QuantumCircuit" where
  "QuantumCircuit_new n m = \<lparr>num_qubits = n, cregs = [(''c'', m)], instructions = []\<rparr>"

definition num_clbits :: "QuantumCircuit \<Rightarrow> nat" where
  "num_clbits qc = sum_list (map snd (cregs qc))"

fun valid_instr :: "QuantumCircuit \<Rightarrow> instr \<Rightarrow> bool" where
  "valid_instr qc (HGate q) = (q < num_qubits qc)"
| "valid_instr qc (XGate q) = (q < num_qubits qc)"
| "valid_instr qc (IGate q) = (q < num_qubits qc)"
| "valid_instr qc (CXGate a b) = (a < num_qubits qc \<and> b < num_qubits qc \<and> a \<noteq> b)"
| "valid_instr qc (CZGate a b) = (a < num_qubits qc \<and> b < num_qubits qc \<and> a \<noteq> b)"
| "valid_instr qc (MCXGate cs q) =
     (list_all (\<lambda>a. a < num_qubits qc) (cs @ [q]) \<and> distinct (cs @ [q]))"
| "valid_instr qc Barrier = True"
| "valid_instr qc (Measure q b) = (q < num_qubits qc \<and> b < num_clbits qc)"

definition append_instr :: "instr \<Rightarrow> QuantumCircuit \<Rightarrow> error + QuantumCircuit" where
  "append_instr g qc =
     (if valid_instr qc g then Inr (qc\<lparr>instructions := instructions qc @ [g]\<rparr>)
      else Inl CircuitError)"

definition qc_h :: "nat \<Rightarrow> QuantumCircuit \<Rightarrow> error + QuantumCircuit" where
  "qc_h q = append_instr (HGate q)"

definition qc_x :: "nat \<Rightarrow> QuantumCircuit \<Rightarrow> error + QuantumCircuit" where
  "qc_x q = append_instr (XGate q)"

definition qc_cx :: "nat \<Rightarrow> nat \<Rightarrow> QuantumCircuit \<Rightarrow> error + QuantumCircuit" where
  "qc_cx a b = append_instr (CXGate a b)"

definition qc_cz :: "nat \<Rightarrow> nat \<Rightarrow> QuantumCircuit \<Rightarrow> error + QuantumCircuit" where
  "qc_cz a b = append_instr (CZGate a b)"

definition qc_mcx :: "nat list \<Rightarrow> nat \<Rightarrow> QuantumCircuit \<Rightarrow> error + QuantumCircuit" where
  "qc_mcx cs q = append_instr (MCXGate cs q)"

text \<open>
  \<^verbatim>\<open>QuantumCircuit.id(self, qubit)\<close> has one required parameter. The argument is an
  option here: \<open>None\<close> is the call \<^verbatim>\<open>qc.id()\<close> that passes nothing, which Python rejects
  with TypeError before the method body runs.
\<close>

definition qc_id :: "nat option \<Rightarrow> QuantumCircuit \<Rightarrow> error + QuantumCircuit" where
  "qc_id q qc = (case q of None \<Rightarrow> Inl TypeError | Some i \<Rightarrow> append_instr (IGate i) qc)"

text \<open>
  \<^verbatim>\<open>measure(qubits, clbits)\<close> pairs the two lists when they are equally long, measures
  one qubit into every listed bit when there is a single qubit, and raises otherwise.
  \<^verbatim>\<open>measure_all()\<close> with its default \<^verbatim>\<open>add_bits=True\<close> adds a new classical register
  \<^verbatim>\<open>meas\<close> with one bit per qubit, a barrier, and measures every qubit into the new
  register; the bits the circuit already had are not used.
\<close>

definition qc_measure :: "nat list \<Rightarrow> nat list \<Rightarrow> QuantumCircuit \<Rightarrow> error + QuantumCircuit" where
  "qc_measure qs bs qc =
     (if length bs = length qs
        then run_steps (map (\<lambda>(q, b). append_instr (Measure q b)) (zip qs bs)) qc
      else if length qs = 1 \<and> bs \<noteq> []
        then run_steps (map (\<lambda>b. append_instr (Measure (hd qs) b)) bs) qc
      else Inl CircuitError)"

definition qc_measure_all :: "QuantumCircuit \<Rightarrow> error + QuantumCircuit" where
  "qc_measure_all qc =
     (let n = num_qubits qc; k = num_clbits qc;
          qc1 = qc\<lparr>cregs := cregs qc @ [(''meas'', n)]\<rparr>
      in and_then (append_instr Barrier qc1) (qc_measure [0..<n] [k..<k + n]))"

subsection \<open>One shot on the simulator\<close>

text \<open>
  The simulator is a black box. What it samples is a parameter \<open>m\<close>: \<open>m q\<close> is the bit
  it reads when qubit \<open>q\<close> is measured, and every \<open>m\<close> is allowed. The classical bits
  start at 0 and a measurement writes its bit. \<^verbatim>\<open>get_counts()\<close> of a one-shot run is a
  dictionary with one key, counted once: the classical bits as characters, the highest
  bit leftmost, cut into the registers (the last added register leftmost) which are
  joined by a space. Transpiling changes none of this.
\<close>

fun exec_instr :: "(nat \<Rightarrow> bool) \<Rightarrow> instr \<Rightarrow> bool list \<Rightarrow> bool list" where
  "exec_instr m (Measure q b) mem = mem[b := m q]"
| "exec_instr m _ mem = mem"

definition run_shot :: "(nat \<Rightarrow> bool) \<Rightarrow> QuantumCircuit \<Rightarrow> bool list" where
  "run_shot m qc = fold (exec_instr m) (instructions qc) (replicate (num_clbits qc) False)"

definition bit_char :: "bool \<Rightarrow> char" where
  "bit_char b = (if b then CHR ''1'' else CHR ''0'')"

fun separate_bitstring :: "string \<Rightarrow> nat list \<Rightarrow> string list" where
  "separate_bitstring s [] = []"
| "separate_bitstring s (n # ns) = take n s # separate_bitstring (drop n s) ns"

fun join_space :: "string list \<Rightarrow> string" where
  "join_space [] = []"
| "join_space [s] = s"
| "join_space (s # ss) = s @ '' '' @ join_space ss"

definition get_counts :: "(nat \<Rightarrow> bool) \<Rightarrow> QuantumCircuit \<Rightarrow> (string \<times> nat) list" where
  "get_counts m qc =
     [(join_space (separate_bitstring (map bit_char (rev (run_shot m qc)))
                                      (rev (map snd (cregs qc)))), 1)]"

text \<open>\<^verbatim>\<open>list(counts.keys())[0]\<close>: the first key, IndexError on an empty dictionary.\<close>

definition first_key :: "(string \<times> nat) list \<Rightarrow> error + string" where
  "first_key counts = (case counts of [] \<Rightarrow> Inl IndexError | (k, _) # _ \<Rightarrow> Inr k)"

subsection \<open>The three circuits\<close>

definition create_entangled_pair :: "(nat \<Rightarrow> bool) \<Rightarrow> error + string" where
  "create_entangled_pair m =
     and_then (run_steps [qc_h 0, qc_cx 0 1, qc_measure [0, 1] [0, 1]] (QuantumCircuit_new 2 2))
       (\<lambda>qc. first_key (get_counts m qc))"

definition ghz_state :: "nat \<Rightarrow> (nat \<Rightarrow> bool) \<Rightarrow> error + (string \<times> nat) list" where
  "ghz_state n m =
     and_then (run_steps ([qc_h 0] @ map (\<lambda>i. qc_cx i (i + 1)) [0..<n - 1] @ [qc_measure_all])
                 (QuantumCircuit_new n n))
       (\<lambda>qc. Inr (get_counts m qc))"

definition grover_search :: "nat \<Rightarrow> string \<Rightarrow> (nat \<Rightarrow> bool) \<Rightarrow> error + string" where
  "grover_search n_qubits target m =
     and_then
       (run_steps
          (map qc_h [0..<n_qubits]
           @ [if target = ''11'' then qc_cz 0 1 else qc_id None]
           @ concat (map (\<lambda>i. [qc_h i, qc_x i]) [0..<n_qubits])
           @ [qc_h (n_qubits - 1), qc_mcx [0..<n_qubits - 1] (n_qubits - 1), qc_h (n_qubits - 1)]
           @ concat (map (\<lambda>i. [qc_x i, qc_h i]) [0..<n_qubits])
           @ [qc_measure [0..<n_qubits] [0..<n_qubits]])
          (QuantumCircuit_new n_qubits n_qubits))
       (\<lambda>qc. first_key (get_counts m qc))"

section \<open>HyperMemory\<close>

text \<open>
  The dictionary is a map from coordinate tuples to the stored values; \<^verbatim>\<open>retrieve\<close>
  returns \<open>None\<close> for a missing key, as \<^verbatim>\<open>dict.get(coord, None)\<close> does. Every key that
  this program stores or looks up is a tuple of ints, on which Python's key equality is
  equality of the tuples.
\<close>

record HyperMemory =
  data :: "coord \<rightharpoonup> int"

definition HyperMemory_init :: HyperMemory where
  "HyperMemory_init = \<lparr>data = Map.empty\<rparr>"

definition store :: "coord \<Rightarrow> int \<Rightarrow> HyperMemory \<Rightarrow> HyperMemory" where
  "store coord v mem = mem\<lparr>data := (data mem)(coord \<mapsto> v)\<rparr>"

definition retrieve :: "coord \<Rightarrow> HyperMemory \<Rightarrow> int option" where
  "retrieve coord mem = data mem coord"

section \<open>Global instances and the seeding loop\<close>

text \<open>
  The module-level objects \<^verbatim>\<open>spacetime\<close> and \<^verbatim>\<open>memory\<close> are the state every handler
  shares (\<^verbatim>\<open>quantum\<close> holds only the stateless backend). \<^verbatim>\<open>np.random.randint(low, high)\<close>
  draws from \<open>low\<close> (inclusive) to \<open>high\<close> (exclusive): \<open>r\<close> is the generator's raw draw,
  any natural number, and an empty range raises ValueError.
\<close>

record world =
  spacetime :: Spacetime4D
  memory :: HyperMemory

definition world_init :: world where
  "world_init = \<lparr>spacetime = Spacetime4D_init, memory = HyperMemory_init\<rparr>"

definition randint :: "int \<Rightarrow> int \<Rightarrow> nat \<Rightarrow> error + int" where
  "randint low high r =
     (if low < high then Inr (low + int r mod (high - low)) else Inl ValueError)"

definition seed_step :: "(nat \<Rightarrow> nat) \<Rightarrow> nat \<Rightarrow> world \<Rightarrow> error + world" where
  "seed_step rnd i w =
     (case move (PyInt 0) (PyInt (int i)) (PyInt 0) (PyInt 0) (spacetime w) of
        (Inl e, s) \<Rightarrow> Inl e
      | (Inr pos, s) \<Rightarrow>
          and_then (randint 0 100 (rnd i))
            (\<lambda>v. Inr \<lparr>spacetime = s, memory = store pos v (memory w)\<rparr>))"

definition startup :: "(nat \<Rightarrow> nat) \<Rightarrow> error + world" where
  "startup rnd = run_steps (map (seed_step rnd) [0..<4]) world_init"

section \<open>API endpoints\<close>

text \<open>
  \<^verbatim>\<open>jsonify\<close> turns the handler's dictionary into a JSON response: a tuple becomes an
  array, \<open>None\<close> becomes null. A handler returns its response, or the exception it lets
  escape, and the state it leaves. The landing page is a fixed HTML literal.
\<close>

datatype json =
    JNull
  | JBool bool
  | JInt int
  | JFloat double
  | JStr string
  | JArr "json list"
  | JObj "(string \<times> json) list"

datatype response = HomePage | Json json

fun json_of_num :: "pynum \<Rightarrow> json" where
  "json_of_num (PyInt i) = JInt i"
| "json_of_num (PyFloat f) = JFloat f"

fun json_of_coord :: "coord \<Rightarrow> json" where
  "json_of_coord (a, b, c, d) = JArr [json_of_num a, json_of_num b, json_of_num c, json_of_num d]"

definition home :: "world \<Rightarrow> (error + response) \<times> world" where
  "home w = (Inr HomePage, w)"

text \<open>\<open>now\<close> is the text of \<^verbatim>\<open>datetime.now().isoformat()\<close>.\<close>

definition status :: "string \<Rightarrow> world \<Rightarrow> (error + response) \<times> world" where
  "status now w =
     (case move (PyInt 0) (PyInt 0) (PyInt 0) (PyInt 0) (spacetime w) of
        (Inl e, s) \<Rightarrow> (Inl e, w\<lparr>spacetime := s\<rparr>)
      | (Inr pos, s) \<Rightarrow>
          (Inr (Json (JObj
             [(''node'', JStr (''Tesseract-Node '' @ [CHR 0xCE, CHR 0xA9])),
              (''status'', JStr ''4D OPERATIONAL''),
              (''time'', JStr now),
              (''position'', json_of_coord pos),
              (''qubits'', JInt 16),
              (''offline'', JBool True)])),
           w\<lparr>spacetime := s\<rparr>))"

definition entangle :: "(nat \<Rightarrow> bool) \<Rightarrow> world \<Rightarrow> (error + response) \<times> world" where
  "entangle m w =
     (case create_entangled_pair m of
        Inl e \<Rightarrow> (Inl e, w)
      | Inr result \<Rightarrow>
          (Inr (Json (JObj [(''bell_pair'', JStr result), (''entanglement'', JStr ''ACHIEVED'')])),
           w))"

definition ghz :: "(nat \<Rightarrow> bool) \<Rightarrow> world \<Rightarrow> (error + response) \<times> world" where
  "ghz m w =
     (case and_then (ghz_state 4 m) first_key of
        Inl e \<Rightarrow> (Inl e, w)
      | Inr k \<Rightarrow> (Inr (Json (JObj [(''ghz_state'', JStr k), (''qubits'', JInt 4)])), w))"

text \<open>
  \<^verbatim>\<open>float(request.args.get(k, 0))\<close>: the default is the int \<^verbatim>\<open>0\<close>; a parameter that is
  present is a string, which the built-in \<^verbatim>\<open>float\<close> parses. The built-in is the
  parameter \<open>pf\<close>: \<open>pf s = None\<close> when \<open>s\<close> is not a float literal (ValueError),
  \<open>Some d\<close> when it denotes the double \<open>d\<close>.
\<close>

definition float_arg :: "(string \<Rightarrow> double option) \<Rightarrow> (string \<rightharpoonup> string) \<Rightarrow> string \<Rightarrow> error + double" where
  "float_arg pf args k =
     (case args k of
        None \<Rightarrow> float_of_int 0
      | Some s \<Rightarrow> (case pf s of None \<Rightarrow> Inl ValueError | Some d \<Rightarrow> Inr d))"

definition move_route :: "(string \<Rightarrow> double option) \<Rightarrow> (string \<rightharpoonup> string) \<Rightarrow> world \<Rightarrow> (error + response) \<times> world" where
  "move_route pf args w =
     (case float_arg pf args ''dt'' of Inl e \<Rightarrow> (Inl e, w) | Inr dt \<Rightarrow>
       (case float_arg pf args ''dx'' of Inl e \<Rightarrow> (Inl e, w) | Inr dx \<Rightarrow>
         (case move (PyFloat dt) (PyFloat dx) (PyInt 0) (PyInt 0) (spacetime w) of
            (Inl e, s) \<Rightarrow> (Inl e, w\<lparr>spacetime := s\<rparr>)
          | (Inr pos, s) \<Rightarrow>
              (Inr (Json (JObj [(''new_position'', json_of_coord pos)])), w\<lparr>spacetime := s\<rparr>))))"

text \<open>
  \<^verbatim>\<open>int(result, 2)\<close> on a measurement key: the value of a non-empty string of binary
  digits, ValueError on a key with any other character (a key has no sign, prefix or
  underscore, which the built-in would also accept).
\<close>

definition is_binary_string :: "string \<Rightarrow> bool" where
  "is_binary_string s = list_all (\<lambda>ch. ch = CHR ''0'' \<or> ch = CHR ''1'') s"

definition int_base2 :: "string \<Rightarrow> error + int" where
  "int_base2 s =
     (if s \<noteq> [] \<and> is_binary_string s
        then Inr (foldl (\<lambda>v ch. 2 * v + (if ch = CHR ''1'' then 1 else 0)) 0 s)
      else Inl ValueError)"

definition grover :: "(nat \<Rightarrow> bool) \<Rightarrow> (string \<rightharpoonup> string) \<Rightarrow> world \<Rightarrow> (error + response) \<times> world" where
  "grover m args w =
     (let target = (case args ''target'' of None \<Rightarrow> ''11'' | Some s \<Rightarrow> s) in
      case grover_search 2 target m of Inl e \<Rightarrow> (Inl e, w) | Inr result \<Rightarrow>
       (case int_base2 result of Inl e \<Rightarrow> (Inl e, w) | Inr index \<Rightarrow>
         (let pos = (PyInt 0, PyInt 0, PyInt 0, PyInt 0);
              found = retrieve pos (memory w)
          in (Inr (Json (JObj
                [(''found_item'', (case found of None \<Rightarrow> JNull | Some v \<Rightarrow> JInt v)),
                 (''at_binary_index'', JStr result),
                 (''quantum_speedup'', JStr ''ACHIEVED'')])),
              w))))"

section \<open>Facts about the numbers\<close>

lemma floor_rat_numeral_div: "\<lfloor>(numeral a / numeral b :: rat)\<rfloor> = numeral a div numeral b"
  using floor_divide_of_int_eq[of "numeral a" "numeral b", where ?'a = rat] by simp

lemmas round_double_eval =
  round_double_def ulp_exp_def ilog2_def pow2_def round_half_even_def compute_bitlen Let_def
  floor_rat_numeral_div

lemma float_of_int_0: "float_of_int 0 = Inr (Finite 0)"
  by (simp add: float_of_int_def round_double_def)

lemma float_of_int_c: "float_of_int self_c = Inr (Finite 299792458)"
  by (simp add: self_c_def float_of_int_def round_double_eval)

lemma fadd_zero_right: "fadd f (Finite 0) = f"
  by (cases f) simp_all

lemma py_add_zero: "py_add v (PyInt 0) = Inr v"
  by (cases v) (simp_all add: float_of_int_0 and_then_def fadd_zero_right)

text \<open>Multiplying by \<^verbatim>\<open>self.c\<close> never raises: the constant converts to a float exactly.\<close>

lemma py_mul_c:
  "py_mul (PyInt self_c) v =
     Inr (case v of PyInt i \<Rightarrow> PyInt (self_c * i)
                  | PyFloat f \<Rightarrow> PyFloat (fmul (Finite 299792458) f))"
  by (cases v) (simp_all add: float_of_int_c and_then_def)

subsection \<open>Integers up to \<open>2^53\<close> are doubles\<close>

lemma round_half_even_of_int: "round_half_even (of_int k) = k"
  by (simp add: round_half_even_def)

lemma bitlen_le_53:
  assumes "0 < x" "x < 2 ^ 53"
  shows "bitlen x \<le> 53"
proof -
  have "(2::int) ^ nat (bitlen x - 1) \<le> x" using bitlen_bounds[OF assms(1)] by simp
  then have lt: "(2::int) ^ nat (bitlen x - 1) < 2 ^ 53" using assms(2) by linarith
  have "nat (bitlen x - 1) < 53" by (rule power_less_imp_less_exp[OF _ lt]) simp
  then show ?thesis by linarith
qed

lemma bitlen_ge_1: "0 < x \<Longrightarrow> 1 \<le> bitlen x"
  using bitlen_eq_zero_iff[of x] bitlen_nonneg[of x] by linarith

lemma round_double_small_int:
  assumes "\<bar>n\<bar> < 2 ^ 53"
  shows "round_double (of_int n) = Finite (of_int n)"
proof (cases "n = 0")
  case True
  then show ?thesis by (simp add: round_double_def)
next
  case False
  define x where "x = \<bar>n\<bar>"
  have xpos: "0 < x" and xlt: "x < 2 ^ 53" using False assms by (simp_all add: x_def)
  have b1: "1 \<le> bitlen x" and b53: "bitlen x \<le> 53"
    using bitlen_ge_1[OF xpos] bitlen_le_53[OF xpos xlt] by simp_all
  have abs_q: "\<bar>of_int n :: rat\<bar> = of_int x" by (simp add: x_def)
  have "1 \<le> (of_int x :: rat)" using xpos by simp
  then have il: "ilog2 \<bar>of_int n\<bar> = bitlen x - 1"
    by (simp add: ilog2_def abs_q)
  define k where "k = nat (53 - bitlen x)"
  have e: "ulp_exp (of_int n) = - int k"
    using b1 b53 by (simp add: ulp_exp_def il k_def)
  have p: "pow2 (- int k) = 1 / 2 ^ k"
    by (cases "k = 0") (simp_all add: pow2_def)
  have q: "(of_int n :: rat) / pow2 (- int k) = of_int (n * 2 ^ k)"
    by (simp add: p)
  have r: "of_int (round_half_even (of_int n / pow2 (- int k))) * pow2 (- int k) = (of_int n :: rat)"
    unfolding q round_half_even_of_int by (simp add: p)
  have "(of_int x :: rat) < of_int (2 ^ 53)" using xlt by (simp only: of_int_less_iff)
  also have "\<dots> < 2 ^ 1024" by simp
  finally have small: "\<not> 2 ^ 1024 \<le> \<bar>of_int n :: rat\<bar>" by (simp add: abs_q)
  show ?thesis
    using False small by (simp add: round_double_def e Let_def r)
qed

lemma round_double_pow53:
  "round_double (of_int (2 ^ 53)) = Finite (of_int (2 ^ 53))"
  "round_double (of_int (- (2 ^ 53))) = Finite (of_int (- (2 ^ 53)))"
  by (simp_all add: round_double_eval)

lemma round_double_int:
  assumes "\<bar>n\<bar> \<le> 2 ^ 53"
  shows "round_double (of_int n) = Finite (of_int n)"
proof -
  consider "\<bar>n\<bar> < 2 ^ 53" | "n = 2 ^ 53" | "n = - (2 ^ 53)" using assms by linarith
  then show ?thesis
    by cases (simp_all only: round_double_small_int round_double_pow53)
qed

lemma float_of_int_exact: "\<bar>i\<bar> \<le> 2 ^ 53 \<Longrightarrow> float_of_int i = Inr (Finite (of_int i))"
  by (simp add: float_of_int_def round_double_int)

text \<open>A float sum that is a double is not rounded; an int that is a double converts to it.\<close>

lemma fadd_exact:
  "round_double (p + q) = Finite (p + q) \<Longrightarrow> fadd (Finite p) (Finite q) = Finite (p + q)"
  by simp

lemma py_add_exact:
  assumes "v = PyFloat (Finite p) \<or> (v = PyInt i \<and> p = of_int i \<and> round_double p = Finite p)"
    and "round_double (p + q) = Finite (p + q)"
  shows "py_add v (PyFloat (Finite q)) = Inr (PyFloat (Finite (p + q)))"
  using assms(1)
proof
  assume "v = PyFloat (Finite p)"
  then show ?thesis
    by (simp add: fadd_exact[OF assms(2)] del: fadd.simps)
next
  assume "v = PyInt i \<and> p = of_int i \<and> round_double p = Finite p"
  then have v: "v = PyInt i" and p: "p = of_int i" and "round_double p = Finite p"
    by blast+
  then have r: "round_double (of_int i) = Finite (of_int i)"
    by simp
  have f: "float_of_int i = Inr (Finite (of_int i))"
    by (simp add: float_of_int_def r)
  show ?thesis
    using fadd_exact[OF assms(2)]
    by (simp add: v p f and_then_def del: fadd.simps)
qed

text \<open>Beyond \<open>2^53\<close> the doubles are two apart: an odd sum is rounded.\<close>

lemma fadd_2p53_1: "fadd (Finite 9007199254740992) (Finite 1) = Finite 9007199254740992"
  by (simp add: round_double_eval)

lemma fadd_2p53_2: "fadd (Finite 9007199254740992) (Finite 2) = Finite 9007199254740994"
  by (simp add: round_double_eval)

section \<open>Spacetime4D.move\<close>

lemma move_zero:
  "move (PyInt 0) (PyInt 0) (PyInt 0) (PyInt 0) s =
     (and_then (py_mul (PyInt self_c) (self_t s)) (\<lambda>ct. Inr (ct, self_x s, self_y s, self_z s)), s)"
  by (simp add: move_def py_add_zero py_mul_c and_then_def)

text \<open>
  C10. For every position state, \<^verbatim>\<open>move(0, 0, 0, 0)\<close> leaves the four fields as they
  are and returns the current position tuple; so a \<^verbatim>\<open>/status\<close> request leaves the whole
  state as it found it.
\<close>

theorem move_zero_is_identity:
  "\<exists>ct. py_mul (PyInt self_c) (self_t s) = Inr ct
      \<and> move (PyInt 0) (PyInt 0) (PyInt 0) (PyInt 0) s
          = (Inr (ct, self_x s, self_y s, self_z s), s)
      \<and> snd (status now w) = w"
  by (simp add: move_zero status_def py_mul_c and_then_def)

lemma py_mul_c_value:
  "py_mul (PyInt self_c) v =
     Inr (case v of PyInt i \<Rightarrow> PyInt (299792458 * i)
                  | PyFloat f \<Rightarrow> PyFloat (fmul (Finite 299792458) f))"
  unfolding py_mul_c by (cases v) (simp_all add: self_c_def)

text \<open>
  What a call of \<^verbatim>\<open>move\<close> that returns has done: each field is the old field plus its
  delta, and the tuple is \<open>299792458\<close> times the new time field (an int product for an
  int field, the float product for a float field), then the new x, y, z.
\<close>

lemma move_returns_iff:
  "(move dt dx dy dz s = (Inr pos, s')) =
     (\<exists>t' x' y' z'.
        py_add (self_t s) dt = Inr t' \<and> py_add (self_x s) dx = Inr x' \<and>
        py_add (self_y s) dy = Inr y' \<and> py_add (self_z s) dz = Inr z' \<and>
        s' = s\<lparr>self_t := t', self_x := x', self_y := y', self_z := z'\<rparr> \<and>
        pos = (case t' of PyInt i \<Rightarrow> PyInt (299792458 * i)
                        | PyFloat f \<Rightarrow> PyFloat (fmul (Finite 299792458) f),
               x', y', z'))"
  by (auto simp add: move_def Let_def py_mul_c_value split: sum.splits)

lemma status_value:
  "status now w =
     (Inr (Json (JObj
        [(''node'', JStr (''Tesseract-Node '' @ [CHR 0xCE, CHR 0xA9])),
         (''status'', JStr ''4D OPERATIONAL''),
         (''time'', JStr now),
         (''position'',
            JArr [json_of_num (case self_t (spacetime w) of
                                 PyInt i \<Rightarrow> PyInt (299792458 * i)
                               | PyFloat f \<Rightarrow> PyFloat (fmul (Finite 299792458) f)),
                  json_of_num (self_x (spacetime w)),
                  json_of_num (self_y (spacetime w)), json_of_num (self_z (spacetime w))]),
         (''qubits'', JInt 16),
         (''offline'', JBool True)])),
      w)"
  by (simp add: move_zero status_def py_mul_c_value and_then_def)

section \<open>The /move route\<close>

lemma float_arg_absent: "args k = None \<Longrightarrow> float_arg pf args k = Inr (Finite 0)"
  by (simp add: float_arg_def float_of_int_0)

lemma float_arg_present: "args k = Some s \<Longrightarrow> pf s = Some d \<Longrightarrow> float_arg pf args k = Inr d"
  by (simp add: float_arg_def)

lemma move_route_value:
  assumes "float_arg pf args ''dt'' = Inr dt" and "float_arg pf args ''dx'' = Inr dx"
    and "py_add (self_t (spacetime w)) (PyFloat dt) = Inr t'"
    and "py_add (self_x (spacetime w)) (PyFloat dx) = Inr x'"
  shows "move_route pf args w =
       (Inr (Json (JObj [(''new_position'',
               JArr [json_of_num (case t' of PyInt i \<Rightarrow> PyInt (299792458 * i)
                                          | PyFloat f \<Rightarrow> PyFloat (fmul (Finite 299792458) f)),
                     json_of_num x',
                     json_of_num (self_y (spacetime w)), json_of_num (self_z (spacetime w))])])),
        w\<lparr>spacetime := (spacetime w)\<lparr>self_t := t', self_x := x'\<rparr>\<rparr>)"
  using assms
  by (simp add: move_route_def move_def py_add_zero py_mul_c_value)

lemma move_route_returns_iff:
  "(move_route pf args w = (Inr resp, w')) =
     (\<exists>dt dx t' x'.
        float_arg pf args ''dt'' = Inr dt \<and> float_arg pf args ''dx'' = Inr dx \<and>
        py_add (self_t (spacetime w)) (PyFloat dt) = Inr t' \<and>
        py_add (self_x (spacetime w)) (PyFloat dx) = Inr x' \<and>
        w' = w\<lparr>spacetime := (spacetime w)\<lparr>self_t := t', self_x := x'\<rparr>\<rparr> \<and>
        resp = Json (JObj [(''new_position'',
               JArr [json_of_num (case t' of PyInt i \<Rightarrow> PyInt (299792458 * i)
                                          | PyFloat f \<Rightarrow> PyFloat (fmul (Finite 299792458) f)),
                     json_of_num x',
                     json_of_num (self_y (spacetime w)), json_of_num (self_z (spacetime w))])]))"
  by (auto simp add: move_route_def move_def Let_def py_add_zero py_mul_c_value split: sum.splits)

text \<open>
  C8. The tuple that \<^verbatim>\<open>move\<close> returns is \<open>(c * t, x, y, z)\<close> over the fields after the
  deltas were added, with \<open>c = 299792458\<close>: the first component is the product, the other
  three are the fields themselves. \<^verbatim>\<open>/status\<close> reports that tuple for the current fields
  and \<^verbatim>\<open>/move\<close> for the fields after its two additions.
\<close>

theorem move_returns_c_times_t:
  "self_c = 299792458
   \<and> (move dt dx dy dz s = (Inr pos, s')) =
       (\<exists>t' x' y' z'.
          py_add (self_t s) dt = Inr t' \<and> py_add (self_x s) dx = Inr x' \<and>
          py_add (self_y s) dy = Inr y' \<and> py_add (self_z s) dz = Inr z' \<and>
          s' = s\<lparr>self_t := t', self_x := x', self_y := y', self_z := z'\<rparr> \<and>
          pos = (case t' of PyInt i \<Rightarrow> PyInt (299792458 * i)
                          | PyFloat f \<Rightarrow> PyFloat (fmul (Finite 299792458) f),
                 x', y', z'))
   \<and> status now w =
       (Inr (Json (JObj
          [(''node'', JStr (''Tesseract-Node '' @ [CHR 0xCE, CHR 0xA9])),
           (''status'', JStr ''4D OPERATIONAL''),
           (''time'', JStr now),
           (''position'',
              JArr [json_of_num (case self_t (spacetime w) of
                                   PyInt i \<Rightarrow> PyInt (299792458 * i)
                                 | PyFloat f \<Rightarrow> PyFloat (fmul (Finite 299792458) f)),
                    json_of_num (self_x (spacetime w)),
                    json_of_num (self_y (spacetime w)), json_of_num (self_z (spacetime w))]),
           (''qubits'', JInt 16),
           (''offline'', JBool True)])),
        w)
   \<and> (move_route pf args w = (Inr resp, w')) =
       (\<exists>a b t' x'.
          float_arg pf args ''dt'' = Inr a \<and> float_arg pf args ''dx'' = Inr b \<and>
          py_add (self_t (spacetime w)) (PyFloat a) = Inr t' \<and>
          py_add (self_x (spacetime w)) (PyFloat b) = Inr x' \<and>
          w' = w\<lparr>spacetime := (spacetime w)\<lparr>self_t := t', self_x := x'\<rparr>\<rparr> \<and>
          resp = Json (JObj [(''new_position'',
                 JArr [json_of_num (case t' of PyInt i \<Rightarrow> PyInt (299792458 * i)
                                            | PyFloat f \<Rightarrow> PyFloat (fmul (Finite 299792458) f)),
                       json_of_num x',
                       json_of_num (self_y (spacetime w)), json_of_num (self_z (spacetime w))])]))"
  by (simp only: move_returns_iff status_value move_route_returns_iff self_c_def simp_thms)

theorem move_returns_c_times_t_witness:
  "move (PyInt 3) (PyInt 1) (PyInt 0) (PyInt 0)
        \<lparr>self_t = PyInt 2, self_x = PyInt 6, self_y = PyInt 0, self_z = PyInt 0\<rparr>
     = (Inr (PyInt 1498962290, PyInt 7, PyInt 0, PyInt 0),
        \<lparr>self_t = PyInt 5, self_x = PyInt 7, self_y = PyInt 0, self_z = PyInt 0\<rparr>)
   \<and> status ''12:00''
        \<lparr>spacetime = \<lparr>self_t = PyInt 2, self_x = PyInt 6, self_y = PyInt 0, self_z = PyInt 0\<rparr>,
         memory = HyperMemory_init\<rparr>
     = (Inr (Json (JObj
          [(''node'', JStr (''Tesseract-Node '' @ [CHR 0xCE, CHR 0xA9])),
           (''status'', JStr ''4D OPERATIONAL''),
           (''time'', JStr ''12:00''),
           (''position'', JArr [JInt 599584916, JInt 6, JInt 0, JInt 0]),
           (''qubits'', JInt 16),
           (''offline'', JBool True)])),
        \<lparr>spacetime = \<lparr>self_t = PyInt 2, self_x = PyInt 6, self_y = PyInt 0, self_z = PyInt 0\<rparr>,
         memory = HyperMemory_init\<rparr>)
   \<and> move_route [''2.5'' \<mapsto> Finite (5 / 2), ''1'' \<mapsto> Finite 1] [''dt'' \<mapsto> ''2.5'', ''dx'' \<mapsto> ''1'']
        \<lparr>spacetime = \<lparr>self_t = PyInt 2, self_x = PyInt 6, self_y = PyInt 0, self_z = PyInt 0\<rparr>,
         memory = HyperMemory_init\<rparr>
     = (Inr (Json (JObj [(''new_position'',
          JArr [JFloat (Finite 1349066061), JFloat (Finite 7), JInt 0, JInt 0])])),
        \<lparr>spacetime = \<lparr>self_t = PyFloat (Finite (9 / 2)), self_x = PyFloat (Finite 7),
                       self_y = PyInt 0, self_z = PyInt 0\<rparr>,
         memory = HyperMemory_init\<rparr>)"
  using move_returns_c_times_t
    [where dt = "PyInt 3" and dx = "PyInt 1" and dy = "PyInt 0" and dz = "PyInt 0"
       and s = "\<lparr>self_t = PyInt 2, self_x = PyInt 6, self_y = PyInt 0, self_z = PyInt 0\<rparr>"
       and pos = "(PyInt 1498962290, PyInt 7, PyInt 0, PyInt 0)"
       and s' = "\<lparr>self_t = PyInt 5, self_x = PyInt 7, self_y = PyInt 0, self_z = PyInt 0\<rparr>"
       and now = "''12:00''"
       and w = "\<lparr>spacetime = \<lparr>self_t = PyInt 2, self_x = PyInt 6, self_y = PyInt 0, self_z = PyInt 0\<rparr>,
                memory = HyperMemory_init\<rparr>"
       and pf = "[''2.5'' \<mapsto> Finite (5 / 2), ''1'' \<mapsto> Finite 1]"
       and args = "[''dt'' \<mapsto> ''2.5'', ''dx'' \<mapsto> ''1'']"
       and resp = "Json (JObj [(''new_position'',
          JArr [JFloat (Finite 1349066061), JFloat (Finite 7), JInt 0, JInt 0])])"
       and w' = "\<lparr>spacetime = \<lparr>self_t = PyFloat (Finite (9 / 2)), self_x = PyFloat (Finite 7),
                       self_y = PyInt 0, self_z = PyInt 0\<rparr>,
         memory = HyperMemory_init\<rparr>"]
  by (simp add: float_arg_def float_of_int_def and_then_def round_double_eval)

text \<open>
  C4. When \<^verbatim>\<open>dt\<close> or \<^verbatim>\<open>dx\<close> is present and is not a float literal, the handler raises the
  parsing error, no response is made, and the state is the one before the request: both
  parameters are parsed before \<^verbatim>\<open>spacetime.move\<close> is called.
\<close>

theorem move_route_malformed_raises:
  assumes "(\<exists>s. args ''dt'' = Some s \<and> pf s = None) \<or> (\<exists>s. args ''dx'' = Some s \<and> pf s = None)"
  shows "move_route pf args w = (Inl ValueError, w)"
  using assms
  by (auto simp add: move_route_def float_arg_def float_of_int_0 split: option.splits)

theorem move_route_malformed_raises_witness:
  "[''dx'' \<mapsto> ''fast''] ''dx'' = Some ''fast'' \<and> [''1'' \<mapsto> Finite 1] ''fast'' = None
   \<and> move_route [''1'' \<mapsto> Finite 1] [''dx'' \<mapsto> ''fast''] world_init = (Inl ValueError, world_init)"
  using move_route_malformed_raises [of "[''dx'' \<mapsto> ''fast'']" "[''1'' \<mapsto> Finite 1]" world_init]
  by simp

text \<open>
  The sums that \<^verbatim>\<open>/move\<close> forms always exist for a float field, and for an int field
  that a float holds exactly.
\<close>

lemma py_add_floats: "py_add (PyFloat f) (PyFloat g) = Inr (PyFloat (fadd f g))"
  by simp

lemma py_add_int_float:
  "\<bar>i\<bar> \<le> 2 ^ 53 \<Longrightarrow> py_add (PyInt i) (PyFloat g) = Inr (PyFloat (fadd (Finite (of_int i)) g))"
  by (simp add: float_of_int_exact and_then_def)

text \<open>
  C5. With valid \<^verbatim>\<open>dt\<close> and \<^verbatim>\<open>dx\<close> (an absent one counts as 0), the handler adds \<^verbatim>\<open>dt\<close> to
  the time field and \<^verbatim>\<open>dx\<close> to the x field, leaves y and z as they are, and answers with
  the new position tuple \<open>(c * t, x, y, z)\<close>. \<open>t'\<close> and \<open>x'\<close> name the two sums; a sum can
  only fail to exist when the field is an int too large to convert to a float.
\<close>

theorem move_route_adds_deltas:
  assumes "float_arg pf args ''dt'' = Inr dt" and "float_arg pf args ''dx'' = Inr dx"
    and "py_add (self_t (spacetime w)) (PyFloat dt) = Inr t'"
    and "py_add (self_x (spacetime w)) (PyFloat dx) = Inr x'"
  shows "move_route pf args w =
       (Inr (Json (JObj [(''new_position'',
               JArr [json_of_num (case t' of PyInt i \<Rightarrow> PyInt (299792458 * i)
                                          | PyFloat f \<Rightarrow> PyFloat (fmul (Finite 299792458) f)),
                     json_of_num x',
                     json_of_num (self_y (spacetime w)), json_of_num (self_z (spacetime w))])])),
        w\<lparr>spacetime := (spacetime w)\<lparr>self_t := t', self_x := x'\<rparr>\<rparr>)
     \<and> self_y (spacetime (snd (move_route pf args w))) = self_y (spacetime w)
     \<and> self_z (spacetime (snd (move_route pf args w))) = self_z (spacetime w)
     \<and> memory (snd (move_route pf args w)) = memory w"
  by (simp add: move_route_value[OF assms])

theorem move_route_adds_deltas_witness:
  "float_arg [''1'' \<mapsto> Finite 1, ''10'' \<mapsto> Finite 10] [''dt'' \<mapsto> ''1'', ''dx'' \<mapsto> ''10''] ''dt''
     = Inr (Finite 1)
   \<and> float_arg [''1'' \<mapsto> Finite 1, ''10'' \<mapsto> Finite 10] [''dt'' \<mapsto> ''1'', ''dx'' \<mapsto> ''10''] ''dx''
     = Inr (Finite 10)
   \<and> py_add (PyFloat (Finite 2)) (PyFloat (Finite 1)) = Inr (PyFloat (Finite 3))
   \<and> py_add (PyInt 6) (PyFloat (Finite 10)) = Inr (PyFloat (Finite 16))
   \<and> move_route [''1'' \<mapsto> Finite 1, ''10'' \<mapsto> Finite 10] [''dt'' \<mapsto> ''1'', ''dx'' \<mapsto> ''10'']
        \<lparr>spacetime = \<lparr>self_t = PyFloat (Finite 2), self_x = PyInt 6,
                       self_y = PyInt 0, self_z = PyInt 0\<rparr>,
         memory = HyperMemory_init\<rparr>
     = (Inr (Json (JObj [(''new_position'',
          JArr [JFloat (Finite 899377374), JFloat (Finite 16), JInt 0, JInt 0])])),
        \<lparr>spacetime = \<lparr>self_t = PyFloat (Finite 3), self_x = PyFloat (Finite 16),
                       self_y = PyInt 0, self_z = PyInt 0\<rparr>,
         memory = HyperMemory_init\<rparr>)"
  using move_route_adds_deltas
    [where pf = "[''1'' \<mapsto> Finite 1, ''10'' \<mapsto> Finite 10]"
       and args = "[''dt'' \<mapsto> ''1'', ''dx'' \<mapsto> ''10'']"
       and dt = "Finite 1" and dx = "Finite 10"
       and w = "\<lparr>spacetime = \<lparr>self_t = PyFloat (Finite 2), self_x = PyInt 6,
                       self_y = PyInt 0, self_z = PyInt 0\<rparr>,
         memory = HyperMemory_init\<rparr>"
       and t' = "PyFloat (Finite 3)" and x' = "PyFloat (Finite 16)"]
  by (simp add: float_arg_def float_of_int_def and_then_def round_double_eval)

subsection \<open>Additivity of /move\<close>

text \<open>
  C1 as stated (two requests leave the state that the single request with the summed
  deltas leaves, from every state and for all deltas) fails where a float sum is rounded. From the
  time field \<open>2^53\<close>, which one request \<^verbatim>\<open>/move?dt=9007199254740992\<close> sets, two requests
  with \<^verbatim>\<open>dt=1\<close> leave the field where it was, and one request with \<^verbatim>\<open>dt=2\<close> moves it by 2.
\<close>

theorem move_route_not_additive:
  "self_t (spacetime (snd (move_route [''1'' \<mapsto> Finite 1, ''2'' \<mapsto> Finite 2] [''dt'' \<mapsto> ''1'']
     (snd (move_route [''1'' \<mapsto> Finite 1, ''2'' \<mapsto> Finite 2] [''dt'' \<mapsto> ''1'']
        \<lparr>spacetime = \<lparr>self_t = PyFloat (Finite 9007199254740992), self_x = PyFloat (Finite 6),
                       self_y = PyInt 0, self_z = PyInt 0\<rparr>,
         memory = HyperMemory_init\<rparr>)))))
     = PyFloat (Finite 9007199254740992)
   \<and> self_t (spacetime (snd (move_route [''1'' \<mapsto> Finite 1, ''2'' \<mapsto> Finite 2] [''dt'' \<mapsto> ''2'']
        \<lparr>spacetime = \<lparr>self_t = PyFloat (Finite 9007199254740992), self_x = PyFloat (Finite 6),
                       self_y = PyInt 0, self_z = PyInt 0\<rparr>,
         memory = HyperMemory_init\<rparr>)))
     = PyFloat (Finite 9007199254740994)
   \<and> snd (move_route [''1'' \<mapsto> Finite 1, ''2'' \<mapsto> Finite 2] [''dt'' \<mapsto> ''1'']
     (snd (move_route [''1'' \<mapsto> Finite 1, ''2'' \<mapsto> Finite 2] [''dt'' \<mapsto> ''1'']
        \<lparr>spacetime = \<lparr>self_t = PyFloat (Finite 9007199254740992), self_x = PyFloat (Finite 6),
                       self_y = PyInt 0, self_z = PyInt 0\<rparr>,
         memory = HyperMemory_init\<rparr>)))
     \<noteq> snd (move_route [''1'' \<mapsto> Finite 1, ''2'' \<mapsto> Finite 2] [''dt'' \<mapsto> ''2'']
        \<lparr>spacetime = \<lparr>self_t = PyFloat (Finite 9007199254740992), self_x = PyFloat (Finite 6),
                       self_y = PyInt 0, self_z = PyInt 0\<rparr>,
         memory = HyperMemory_init\<rparr>)"
  by (simp add: move_route_def float_arg_def float_of_int_0 move_def py_add_zero py_mul_c_value
        fadd_2p53_1 fadd_2p53_2 fadd_zero_right del: fadd.simps fmul.simps)

text \<open>
  C1, amended. \<^verbatim>\<open>/move\<close> is additive where no addition rounds. Let the time field hold
  \<open>t0\<close> and the x field \<open>x0\<close> (a float, or an int that converts to a float exactly), let
  the two requests carry the finite deltas \<open>(a, b)\<close> and \<open>(c, d)\<close> and the single request
  their exact sums \<open>(a + c, b + d)\<close>, and let each of \<open>t0 + a\<close>, \<open>t0 + a + c\<close>, \<open>x0 + b\<close>
  and \<open>x0 + b + d\<close> be a double. Then the two requests give what the single request
  gives: the same response and the same state. Whole numbers up to \<open>2^53\<close> in magnitude
  are doubles (\<open>round_double_int\<close>).
\<close>

theorem move_route_additive_when_exact:
  assumes t: "self_t (spacetime w) = PyFloat (Finite t0)
              \<or> (self_t (spacetime w) = PyInt ti \<and> t0 = of_int ti \<and> round_double t0 = Finite t0)"
    and x: "self_x (spacetime w) = PyFloat (Finite x0)
              \<or> (self_x (spacetime w) = PyInt xi \<and> x0 = of_int xi \<and> round_double x0 = Finite x0)"
    and first: "float_arg pf args1 ''dt'' = Inr (Finite a)"
               "float_arg pf args1 ''dx'' = Inr (Finite b)"
    and second: "float_arg pf args2 ''dt'' = Inr (Finite c)"
                "float_arg pf args2 ''dx'' = Inr (Finite d)"
    and single: "float_arg pf args12 ''dt'' = Inr (Finite (a + c))"
                "float_arg pf args12 ''dx'' = Inr (Finite (b + d))"
    and et: "round_double (t0 + a) = Finite (t0 + a)"
            "round_double (t0 + a + c) = Finite (t0 + a + c)"
    and ex: "round_double (x0 + b) = Finite (x0 + b)"
            "round_double (x0 + b + d) = Finite (x0 + b + d)"
  shows "move_route pf args2 (snd (move_route pf args1 w)) = move_route pf args12 w"
proof -
  define w1 where "w1 = w\<lparr>spacetime := (spacetime w)
      \<lparr>self_t := PyFloat (Finite (t0 + a)), self_x := PyFloat (Finite (x0 + b))\<rparr>\<rparr>"
  have s1: "snd (move_route pf args1 w) = w1"
    using move_route_value[OF first py_add_exact[OF t et(1)] py_add_exact[OF x ex(1)]]
    by (simp add: w1_def)
  have t1: "self_t (spacetime w1) = PyFloat (Finite (t0 + a))
            \<or> (self_t (spacetime w1) = PyInt 0 \<and> t0 + a = of_int 0
                \<and> round_double (t0 + a) = Finite (t0 + a))"
    and x1: "self_x (spacetime w1) = PyFloat (Finite (x0 + b))
            \<or> (self_x (spacetime w1) = PyInt 0 \<and> x0 + b = of_int 0
                \<and> round_double (x0 + b) = Finite (x0 + b))"
    by (simp_all add: w1_def)
  have tt: "round_double (t0 + (a + c)) = Finite (t0 + (a + c))"
    and xx: "round_double (x0 + (b + d)) = Finite (x0 + (b + d))"
    using et(2) ex(2) by (simp_all add: add.assoc)
  have two: "move_route pf args2 w1 =
       (Inr (Json (JObj [(''new_position'',
               JArr [json_of_num (PyFloat (fmul (Finite 299792458) (Finite (t0 + a + c)))),
                     json_of_num (PyFloat (Finite (x0 + b + d))),
                     json_of_num (self_y (spacetime w)), json_of_num (self_z (spacetime w))])])),
        w\<lparr>spacetime := (spacetime w)
          \<lparr>self_t := PyFloat (Finite (t0 + a + c)),
           self_x := PyFloat (Finite (x0 + b + d))\<rparr>\<rparr>)"
    using move_route_value[OF second py_add_exact[OF t1 et(2)] py_add_exact[OF x1 ex(2)]]
    by (simp add: w1_def del: fmul.simps)
  have one: "move_route pf args12 w =
       (Inr (Json (JObj [(''new_position'',
               JArr [json_of_num (PyFloat (fmul (Finite 299792458) (Finite (t0 + a + c)))),
                     json_of_num (PyFloat (Finite (x0 + b + d))),
                     json_of_num (self_y (spacetime w)), json_of_num (self_z (spacetime w))])])),
        w\<lparr>spacetime := (spacetime w)
          \<lparr>self_t := PyFloat (Finite (t0 + a + c)),
           self_x := PyFloat (Finite (x0 + b + d))\<rparr>\<rparr>)"
    using move_route_value[OF single py_add_exact[OF t tt] py_add_exact[OF x xx]]
    by (simp add: add.assoc del: fmul.simps)
  show ?thesis
    unfolding s1 two one ..
qed

theorem move_route_additive_when_exact_witness:
  "move_route [''1'' \<mapsto> Finite 1, ''2'' \<mapsto> Finite 2, ''2.5'' \<mapsto> Finite (5 / 2), ''3.5'' \<mapsto> Finite (7 / 2)]
     [''dt'' \<mapsto> ''1'', ''dx'' \<mapsto> ''1'']
     (snd (move_route [''1'' \<mapsto> Finite 1, ''2'' \<mapsto> Finite 2, ''2.5'' \<mapsto> Finite (5 / 2),
                       ''3.5'' \<mapsto> Finite (7 / 2)]
             [''dt'' \<mapsto> ''2.5'', ''dx'' \<mapsto> ''1'']
             \<lparr>spacetime = \<lparr>self_t = PyFloat (Finite 2), self_x = PyInt 6,
                            self_y = PyInt 0, self_z = PyInt 0\<rparr>,
              memory = HyperMemory_init\<rparr>))
   = move_route [''1'' \<mapsto> Finite 1, ''2'' \<mapsto> Finite 2, ''2.5'' \<mapsto> Finite (5 / 2), ''3.5'' \<mapsto> Finite (7 / 2)]
       [''dt'' \<mapsto> ''3.5'', ''dx'' \<mapsto> ''2'']
       \<lparr>spacetime = \<lparr>self_t = PyFloat (Finite 2), self_x = PyInt 6,
                      self_y = PyInt 0, self_z = PyInt 0\<rparr>,
        memory = HyperMemory_init\<rparr>
   \<and> snd (move_route [''1'' \<mapsto> Finite 1, ''2'' \<mapsto> Finite 2, ''2.5'' \<mapsto> Finite (5 / 2),
                       ''3.5'' \<mapsto> Finite (7 / 2)]
       [''dt'' \<mapsto> ''3.5'', ''dx'' \<mapsto> ''2'']
       \<lparr>spacetime = \<lparr>self_t = PyFloat (Finite 2), self_x = PyInt 6,
                      self_y = PyInt 0, self_z = PyInt 0\<rparr>,
        memory = HyperMemory_init\<rparr>)
     = \<lparr>spacetime = \<lparr>self_t = PyFloat (Finite (11 / 2)), self_x = PyFloat (Finite 8),
                      self_y = PyInt 0, self_z = PyInt 0\<rparr>,
        memory = HyperMemory_init\<rparr>"
proof -
  have final: "snd (move_route [''1'' \<mapsto> Finite 1, ''2'' \<mapsto> Finite 2, ''2.5'' \<mapsto> Finite (5 / 2),
                       ''3.5'' \<mapsto> Finite (7 / 2)]
       [''dt'' \<mapsto> ''3.5'', ''dx'' \<mapsto> ''2'']
       \<lparr>spacetime = \<lparr>self_t = PyFloat (Finite 2), self_x = PyInt 6,
                      self_y = PyInt 0, self_z = PyInt 0\<rparr>,
        memory = HyperMemory_init\<rparr>)
     = \<lparr>spacetime = \<lparr>self_t = PyFloat (Finite (11 / 2)), self_x = PyFloat (Finite 8),
                      self_y = PyInt 0, self_z = PyInt 0\<rparr>,
        memory = HyperMemory_init\<rparr>"
    by (simp add: move_route_def float_arg_def move_def py_add_zero py_mul_c_value
          float_of_int_def and_then_def round_double_eval del: fmul.simps)
  show ?thesis
    using final move_route_additive_when_exact
      [where w = "\<lparr>spacetime = \<lparr>self_t = PyFloat (Finite 2), self_x = PyInt 6,
                      self_y = PyInt 0, self_z = PyInt 0\<rparr>,
                   memory = HyperMemory_init\<rparr>"
         and pf = "[''1'' \<mapsto> Finite 1, ''2'' \<mapsto> Finite 2, ''2.5'' \<mapsto> Finite (5 / 2),
                    ''3.5'' \<mapsto> Finite (7 / 2)]"
         and ?args1.0 = "[''dt'' \<mapsto> ''2.5'', ''dx'' \<mapsto> ''1'']"
         and ?args2.0 = "[''dt'' \<mapsto> ''1'', ''dx'' \<mapsto> ''1'']"
         and ?args12.0 = "[''dt'' \<mapsto> ''3.5'', ''dx'' \<mapsto> ''2'']"
         and ?t0.0 = 2 and ti = 0 and ?x0.0 = 6 and xi = 6
         and a = "5 / 2" and b = 1 and c = 1 and d = 1]
    by (simp add: float_arg_def round_double_eval)
qed

section \<open>The quantum routes\<close>

text \<open>
  C7. Whatever the simulator measures, \<^verbatim>\<open>/entangle\<close> answers with a \<^verbatim>\<open>bell_pair\<close> of
  exactly two characters, each \<^verbatim>\<open>0\<close> or \<^verbatim>\<open>1\<close> (the bit of qubit 1, then the bit of qubit
  0, as measured by the two-qubit circuit), and with \<^verbatim>\<open>entanglement\<close> \<^verbatim>\<open>ACHIEVED\<close>; the
  state is not touched.
\<close>

theorem entangle_two_bit_string:
  "\<exists>k. entangle m w =
          (Inr (Json (JObj [(''bell_pair'', JStr k), (''entanglement'', JStr ''ACHIEVED'')])), w)
      \<and> k = [if m 1 then CHR ''1'' else CHR ''0'', if m 0 then CHR ''1'' else CHR ''0'']
      \<and> length k = 2 \<and> set k \<subseteq> {CHR ''0'', CHR ''1''} \<and> is_binary_string k"
  by (simp add: entangle_def create_entangled_pair_def and_then_def qc_h_def qc_cx_def
        qc_measure_def append_instr_def QuantumCircuit_new_def num_clbits_def get_counts_def
        run_shot_def first_key_def is_binary_string_def bit_char_def numeral_2_eq_2)

text \<open>
  C2 does not hold of the code. \<^verbatim>\<open>ghz_state\<close> makes its circuit with four classical
  bits and then calls \<^verbatim>\<open>measure_all()\<close>, which measures into a second register of its
  own. The key of the counts therefore has both registers: the four measured bits, a
  space, and the four bits of the first register, which nothing wrote. It has nine
  characters, one of them a space, for every outcome of the simulator.
\<close>

theorem ghz_key_has_two_registers:
  "\<exists>k. ghz m w = (Inr (Json (JObj [(''ghz_state'', JStr k), (''qubits'', JInt 4)])), w)
      \<and> k = [if m 3 then CHR ''1'' else CHR ''0'', if m 2 then CHR ''1'' else CHR ''0'',
             if m 1 then CHR ''1'' else CHR ''0'', if m 0 then CHR ''1'' else CHR ''0'']
            @ '' 0000''
      \<and> length k = 9 \<and> \<not> is_binary_string k"
  by (simp add: ghz_def ghz_state_def and_then_def qc_h_def qc_cx_def qc_measure_def
        qc_measure_all_def append_instr_def QuantumCircuit_new_def num_clbits_def get_counts_def
        run_shot_def first_key_def is_binary_string_def bit_char_def Let_def upt_rec
        eval_nat_numeral)

text \<open>
  With the default target, or \<^verbatim>\<open>target=11\<close>, \<^verbatim>\<open>/grover\<close> answers as described: the value
  stored at the all-zero coordinate, the two measured bits, and \<^verbatim>\<open>ACHIEVED\<close>.
\<close>

lemma grover_11:
  "args ''target'' = None \<or> args ''target'' = Some ''11'' \<Longrightarrow>
   grover m args w =
     (Inr (Json (JObj
        [(''found_item'',
            case retrieve (PyInt 0, PyInt 0, PyInt 0, PyInt 0) (memory w) of
              None \<Rightarrow> JNull | Some v \<Rightarrow> JInt v),
         (''at_binary_index'', JStr [bit_char (m 1), bit_char (m 0)]),
         (''quantum_speedup'', JStr ''ACHIEVED'')])),
      w)"
  by (auto simp add: grover_def grover_search_def and_then_def qc_h_def qc_x_def qc_cz_def
        qc_mcx_def qc_measure_def append_instr_def QuantumCircuit_new_def num_clbits_def
        get_counts_def run_shot_def first_key_def int_base2_def is_binary_string_def bit_char_def
        Let_def upt_rec eval_nat_numeral)

text \<open>Every other target takes the branch that calls \<^verbatim>\<open>qc.id()\<close> with no qubit.\<close>

lemma grover_other:
  "target \<noteq> ''11'' \<Longrightarrow> grover m [''target'' \<mapsto> target] w = (Inl TypeError, w)"
  by (simp add: grover_def grover_search_def and_then_def qc_h_def qc_id_def append_instr_def
        QuantumCircuit_new_def upt_rec eval_nat_numeral)

text \<open>
  C3 does not hold of the code for a target other than \<^verbatim>\<open>11\<close>. The request
  \<^verbatim>\<open>/grover?target=00\<close> builds the oracle with \<^verbatim>\<open>qc.id()\<close>, a call that lacks the qubit the
  method requires: TypeError is raised while the circuit is built, so there is no JSON
  answer and no lookup in the memory.
\<close>

theorem grover_target_00_raises:
  "grover m [''target'' \<mapsto> ''00''] w = (Inl TypeError, w)"
  by (simp add: grover_def grover_search_def and_then_def qc_h_def qc_id_def append_instr_def
        QuantumCircuit_new_def upt_rec eval_nat_numeral)

section \<open>The seeded memory\<close>

lemma startup_value:
  "startup rnd =
     Inr \<lparr>spacetime = \<lparr>self_t = PyInt 0, self_x = PyInt 6, self_y = PyInt 0, self_z = PyInt 0\<rparr>,
          memory = \<lparr>data = [(PyInt 0, PyInt 0, PyInt 0, PyInt 0) \<mapsto> int (rnd 0) mod 100,
                            (PyInt 0, PyInt 1, PyInt 0, PyInt 0) \<mapsto> int (rnd 1) mod 100,
                            (PyInt 0, PyInt 3, PyInt 0, PyInt 0) \<mapsto> int (rnd 2) mod 100,
                            (PyInt 0, PyInt 6, PyInt 0, PyInt 0) \<mapsto> int (rnd 3) mod 100]\<rparr>\<rparr>"
  by (simp add: startup_def upt_rec eval_nat_numeral seed_step_def move_def and_then_def
        randint_def store_def world_init_def Spacetime4D_init_def HyperMemory_init_def self_c_def)

text \<open>
  C9. The seeding loop moves by \<open>i\<close> from where the last round left x, so the four keys
  are \<open>(0,0,0,0)\<close>, \<open>(0,1,0,0)\<close>, \<open>(0,3,0,0)\<close> and \<open>(0,6,0,0)\<close> and the position ends at
  \<open>t = 0, x = 6, y = 0, z = 0\<close>. The all-zero coordinate is a key: the lookup of
  \<^verbatim>\<open>/grover\<close> finds the first seeded value, an integer from 0 to 99, and never \<open>None\<close>.
\<close>

theorem startup_seeds_cumulative_keys:
  "\<exists>w0 v. startup rnd = Inr w0
      \<and> spacetime w0 = \<lparr>self_t = PyInt 0, self_x = PyInt 6, self_y = PyInt 0, self_z = PyInt 0\<rparr>
      \<and> dom (data (memory w0)) =
           {(PyInt 0, PyInt 0, PyInt 0, PyInt 0), (PyInt 0, PyInt 1, PyInt 0, PyInt 0),
            (PyInt 0, PyInt 3, PyInt 0, PyInt 0), (PyInt 0, PyInt 6, PyInt 0, PyInt 0)}
      \<and> retrieve (PyInt 0, PyInt 0, PyInt 0, PyInt 0) (memory w0) = Some v
      \<and> v = int (rnd 0) mod 100 \<and> 0 \<le> v \<and> v < 100
      \<and> grover m Map.empty w0 =
          (Inr (Json (JObj
             [(''found_item'', JInt v),
              (''at_binary_index'',
                 JStr [if m 1 then CHR ''1'' else CHR ''0'', if m 0 then CHR ''1'' else CHR ''0'']),
              (''quantum_speedup'', JStr ''ACHIEVED'')])),
           w0)"
  by (auto simp add: startup_value retrieve_def grover_11 bit_char_def)

text \<open>No handler writes to the memory, whether it answers or raises.\<close>

lemma route_memory:
  "memory (snd (home w)) = memory w"
  "memory (snd (status now w)) = memory w"
  "memory (snd (entangle m w)) = memory w"
  "memory (snd (ghz m w)) = memory w"
  "memory (snd (move_route pf args w)) = memory w"
  "memory (snd (grover m args w)) = memory w"
  by (simp_all add: home_def status_def entangle_def ghz_def move_route_def grover_def Let_def
        split: sum.splits prod.splits)

text \<open>
  C6. The memory is empty when the module is loaded, the seeding loop leaves exactly
  four entries in it, and each of the six handlers returns the memory it was given:
  \<^verbatim>\<open>store\<close> is called by the seeding loop only.
\<close>

theorem memory_seeded_once_then_fixed:
  "data (memory world_init) = Map.empty
   \<and> (\<exists>w0. startup rnd = Inr w0 \<and> card (dom (data (memory w0))) = 4)
   \<and> memory (snd (home w)) = memory w
   \<and> memory (snd (status now w)) = memory w
   \<and> memory (snd (entangle m w)) = memory w
   \<and> memory (snd (ghz m w)) = memory w
   \<and> memory (snd (move_route pf args w)) = memory w
   \<and> memory (snd (grover m args w)) = memory w"
  by (simp add: route_memory startup_value world_init_def HyperMemory_init_def)

end
